theory Spec2Isabelle
  imports Complex_Main "HOL-Library.Multiset"
begin

section \<open>Storage: the two tables of the polls application\<close>

text \<open>
  Modelled from the spec: \<^verbatim>\<open>polls/models.py\<close> (the classes \<^verbatim>\<open>Question\<close> and \<^verbatim>\<open>Choice\<close>
  imported by \<^verbatim>\<open>polls/views.py\<close>) is not among the sources. The spec's data model gives a
  Question an identifier, a text and a publication timestamp, and a Choice an identifier, a
  reference to one Question, a text and a vote counter. Timestamps are integers (ticks of
  the clock behind \<^verbatim>\<open>timezone.now()\<close>); the vote counter is an integer column, and nothing
  in the types keeps it non-negative.
\<close>

record Question =
  q_pk :: int
  question_text :: string
  pub_date :: int

record Choice =
  c_pk :: int
  question_id :: int
  choice_text :: string
  votes :: int

text \<open>
  A database state: each table is the list of its rows, in the order in which an unordered
  query returns them. The store keeps primary keys unique; that is the invariant
  \<open>unique_pks\<close>, assumed only where a statement needs it.
\<close>

record db =
  questions :: "Question list"
  choices :: "Choice list"

definition unique_pks :: "db \<Rightarrow> bool" where
  "unique_pks d = (distinct (map q_pk (questions d)) \<and> distinct (map c_pk (choices d)))"

section \<open>Exceptions and Python values\<close>

datatype error =
    Http404
  | KeyError
  | DoesNotExist
  | MultipleObjectsReturned
  | ValueError
  | ZeroDivisionError

text \<open>
  The value of the \<^verbatim>\<open>percentage\<close> attribute is either the integer literal \<^verbatim>\<open>0\<close> or the
  float that \<^verbatim>\<open>(choice.votes / total_votes) * 100\<close> computes.
\<close>

datatype pyval = PyInt int | PyFloat real

text \<open>
  Python's true division of two integers raises \<^verbatim>\<open>ZeroDivisionError\<close> on a zero divisor and
  otherwise returns the quotient rounded to a float; the product of a float and an integer is
  rounded again. The rounding function \<open>rnd\<close> is a parameter of the model, so every
  statement below holds whatever the float format does.
\<close>

definition py_truediv :: "(real \<Rightarrow> real) \<Rightarrow> int \<Rightarrow> int \<Rightarrow> error + real" where
  "py_truediv rnd a b =
     (if b = 0 then Inl ZeroDivisionError else Inr (rnd (real_of_int a / real_of_int b)))"

definition py_mul :: "(real \<Rightarrow> real) \<Rightarrow> real \<Rightarrow> int \<Rightarrow> real" where
  "py_mul rnd x n = rnd (x * real_of_int n)"

section \<open>The queries the views issue\<close>

text \<open>\<^verbatim>\<open>filter(pub_date__lte=timezone.now())\<close>, with the clock's reading as \<open>now\<close>.\<close>

definition published :: "int \<Rightarrow> Question list \<Rightarrow> Question list" where
  "published now qs = filter (\<lambda>q. pub_date q \<le> now) qs"

text \<open>
  \<^verbatim>\<open>order_by("-pub_date")\<close>: descending by publication timestamp. Rows with equal timestamps
  keep their table order here; the statements below do not depend on that choice.
\<close>

definition order_by_pub_date_desc :: "Question list \<Rightarrow> Question list" where
  "order_by_pub_date_desc qs = sort_key (\<lambda>q. - pub_date q) qs"

text \<open>\<^verbatim>\<open>question.choice_set\<close>: the Choices whose foreign key is the Question's identifier.\<close>

definition choice_set :: "db \<Rightarrow> Question \<Rightarrow> Choice list" where
  "choice_set d question = filter (\<lambda>c. question_id c = q_pk question) (choices d)"

text \<open>
  \<^verbatim>\<open>Sum('votes')\<close>: the aggregate over no rows is \<^verbatim>\<open>None\<close> (SQL's NULL), otherwise the sum.
\<close>

definition Sum_votes :: "Choice list \<Rightarrow> int option" where
  "Sum_votes cs = (if cs = [] then None else Some (sum_list (map votes cs)))"

text \<open>\<^verbatim>\<open>Coalesce(x, 0)\<close>: the first argument that is not NULL.\<close>

definition Coalesce :: "int option \<Rightarrow> int \<Rightarrow> int" where
  "Coalesce x dflt = (case x of None \<Rightarrow> dflt | Some v \<Rightarrow> v)"

text \<open>Python's \<^verbatim>\<open>x or y\<close> on an optional integer: \<^verbatim>\<open>None\<close> and \<^verbatim>\<open>0\<close> are the falsy values.\<close>

definition py_or :: "int option \<Rightarrow> int \<Rightarrow> int" where
  "py_or x y = (case x of None \<Rightarrow> y | Some v \<Rightarrow> (if v = 0 then y else v))"

text \<open>
  \<^verbatim>\<open>QuerySet.get(pk=...)\<close>: the one row with that primary key; \<^verbatim>\<open>DoesNotExist\<close> when there is
  none, \<^verbatim>\<open>MultipleObjectsReturned\<close> when there are several.
\<close>

definition get_by_pk :: "('a \<Rightarrow> int) \<Rightarrow> 'a list \<Rightarrow> int \<Rightarrow> error + 'a" where
  "get_by_pk pk_of rows k =
     (case filter (\<lambda>r. pk_of r = k) rows of
        [] \<Rightarrow> Inl DoesNotExist
      | [r] \<Rightarrow> Inr r
      | _ # _ # _ \<Rightarrow> Inl MultipleObjectsReturned)"

text \<open>
  \<^verbatim>\<open>get_object_or_404\<close>, and \<^verbatim>\<open>get_object\<close> of the generic detail views: \<^verbatim>\<open>DoesNotExist\<close>
  becomes \<^verbatim>\<open>Http404\<close>, any other exception passes through.
\<close>

definition get_object_or_404 :: "Question list \<Rightarrow> int \<Rightarrow> error + Question" where
  "get_object_or_404 qs k =
     (case get_by_pk q_pk qs k of
        Inl e \<Rightarrow> (if e = DoesNotExist then Inl Http404 else Inl e)
      | Inr q \<Rightarrow> Inr q)"

section \<open>IndexView\<close>

text \<open>A Question instance with the \<^verbatim>\<open>total_votes\<close> attribute the views set on it.\<close>

record Question_with_total =
  question :: Question
  total_votes :: int

record index_context =
  latest_question_list :: "Question_with_total list"
  total_polls :: nat
  all_votes :: int

definition IndexView_get_queryset :: "db \<Rightarrow> int \<Rightarrow> Question list" where
  "IndexView_get_queryset d now = take 10 (order_by_pub_date_desc (published now (questions d)))"

text \<open>
  \<^verbatim>\<open>IndexView.get_context_data\<close>; the context key \<^verbatim>\<open>'total_votes'\<close> is the field
  \<open>all_votes\<close> (the name \<open>total_votes\<close> is the attribute of a Question).
\<close>

definition IndexView_get_context_data :: "db \<Rightarrow> int \<Rightarrow> index_context" where
  "IndexView_get_context_data d now =
     \<lparr> latest_question_list =
         map (\<lambda>q. \<lparr> question = q, total_votes = Coalesce (Sum_votes (choice_set d q)) 0 \<rparr>)
           (IndexView_get_queryset d now),
       total_polls = length (questions d),
       all_votes = Coalesce (Sum_votes (choices d)) 0 \<rparr>"

section \<open>DetailView\<close>

definition DetailView_get_queryset :: "db \<Rightarrow> int \<Rightarrow> Question list" where
  "DetailView_get_queryset d now = published now (questions d)"

definition DetailView_get_context_data :: "db \<Rightarrow> Question \<Rightarrow> Question_with_total" where
  "DetailView_get_context_data d q =
     \<lparr> question = q, total_votes = Coalesce (Sum_votes (choice_set d q)) 0 \<rparr>"

definition DetailView :: "db \<Rightarrow> int \<Rightarrow> int \<Rightarrow> error + Question_with_total" where
  "DetailView d now k =
     (case get_object_or_404 (DetailView_get_queryset d now) k of
        Inl e \<Rightarrow> Inl e
      | Inr q \<Rightarrow> Inr (DetailView_get_context_data d q))"

section \<open>ResultsView\<close>

text \<open>A Choice instance with the \<^verbatim>\<open>percentage\<close> attribute.\<close>

record Choice_with_percentage =
  choice :: Choice
  percentage :: pyval

record results_context =
  results_question :: Question
  results_total_votes :: int
  most_popular_choice :: "Choice_with_percentage option"
  context_choices :: "Choice_with_percentage list"

definition ResultsView_get_queryset :: "db \<Rightarrow> int \<Rightarrow> Question list" where
  "ResultsView_get_queryset d now = published now (questions d)"

text \<open>The body of the loop over the choices: one percentage, or the exception of the division.\<close>

definition choice_percentage :: "(real \<Rightarrow> real) \<Rightarrow> int \<Rightarrow> Choice \<Rightarrow> error + pyval" where
  "choice_percentage rnd tot c =
     (if tot > 0 then
        (case py_truediv rnd (votes c) tot of
           Inl e \<Rightarrow> Inl e
         | Inr r \<Rightarrow> Inr (PyFloat (py_mul rnd r 100)))
      else Inr (PyInt 0))"

fun attach_percentages ::
  "(real \<Rightarrow> real) \<Rightarrow> int \<Rightarrow> Choice list \<Rightarrow> error + Choice_with_percentage list" where
  "attach_percentages rnd tot [] = Inr []"
| "attach_percentages rnd tot (c # cs) =
     (case choice_percentage rnd tot c of
        Inl e \<Rightarrow> Inl e
      | Inr p \<Rightarrow>
          (case attach_percentages rnd tot cs of
             Inl e \<Rightarrow> Inl e
           | Inr rest \<Rightarrow> Inr (\<lparr> choice = c, percentage = p \<rparr> # rest)))"

text \<open>
  Python's \<^verbatim>\<open>max(xs, key=f)\<close>: \<^verbatim>\<open>ValueError\<close> on an empty sequence; otherwise the first
  element, in iteration order, whose key no other element exceeds.
\<close>

fun max_from :: "('a \<Rightarrow> int) \<Rightarrow> 'a \<Rightarrow> 'a list \<Rightarrow> 'a" where
  "max_from key best [] = best"
| "max_from key best (x # xs) = max_from key (if key x > key best then x else best) xs"

definition py_max :: "('a \<Rightarrow> int) \<Rightarrow> 'a list \<Rightarrow> error + 'a" where
  "py_max key xs = (case xs of [] \<Rightarrow> Inl ValueError | x # rest \<Rightarrow> Inr (max_from key x rest))"

text \<open>
  \<^verbatim>\<open>ResultsView.get_context_data\<close>. The loop over \<^verbatim>\<open>choices\<close> evaluates the queryset once and
  sets the attribute on the instances it keeps, so \<^verbatim>\<open>choices.exists()\<close>, the \<^verbatim>\<open>max\<close> and the
  context all see that same list of instances.
\<close>

definition ResultsView_get_context_data ::
  "(real \<Rightarrow> real) \<Rightarrow> db \<Rightarrow> Question \<Rightarrow> error + results_context" where
  "ResultsView_get_context_data rnd d q =
     (let cs = choice_set d q;
          tot = py_or (Sum_votes cs) 0
      in case attach_percentages rnd tot cs of
           Inl e \<Rightarrow> Inl e
         | Inr cps \<Rightarrow>
             (case (if tot > 0 \<and> cps \<noteq> []
                    then map_sum id Some (py_max (\<lambda>c. votes (choice c)) cps)
                    else Inr None) of
                Inl e \<Rightarrow> Inl e
              | Inr best \<Rightarrow>
                  Inr \<lparr> results_question = q, results_total_votes = tot,
                        most_popular_choice = best, context_choices = cps \<rparr>))"

definition ResultsView :: "(real \<Rightarrow> real) \<Rightarrow> db \<Rightarrow> int \<Rightarrow> int \<Rightarrow> error + results_context" where
  "ResultsView rnd d now k =
     (case get_object_or_404 (ResultsView_get_queryset d now) k of
        Inl e \<Rightarrow> Inl e
      | Inr q \<Rightarrow> ResultsView_get_context_data rnd d q)"

section \<open>The vote view\<close>

text \<open>
  \<^verbatim>\<open>request.POST\<close>: the submitted form fields, each a string as the client sent it.
\<close>

record request =
  POST :: "string \<rightharpoonup> string"

text \<open>
  The lookup \<^verbatim>\<open>get(pk=value)\<close> on an integer key first turns the value into an integer with
  Python's \<^verbatim>\<open>int\<close>, and a string that is not the text of an integer makes it raise
  \<^verbatim>\<open>ValueError\<close>. The views take that conversion as the parameter \<open>to_int\<close> (\<open>None\<close> where
  \<^verbatim>\<open>int\<close> raises), so what is proved of them holds whatever strings \<^verbatim>\<open>int\<close> accepts.
  \<open>py_int\<close> is \<^verbatim>\<open>int\<close> on ASCII strings: blanks around the number are dropped, one sign
  may lead, and the digits may be grouped by single underscores.
\<close>

definition is_space :: "char \<Rightarrow> bool" where
  "is_space c =
     (c \<in> set [CHR '' '', CHR 0x09, CHR 0x0A, CHR 0x0B, CHR 0x0C, CHR 0x0D,
                CHR 0x1C, CHR 0x1D, CHR 0x1E, CHR 0x1F])"

definition strip :: "string \<Rightarrow> string" where
  "strip s = rev (dropWhile is_space (rev (dropWhile is_space s)))"

definition digit_value :: "char \<Rightarrow> nat option" where
  "digit_value c = map_of (zip ''0123456789'' [0, 1, 2, 3, 4, 5, 6, 7, 8, 9]) c"

text \<open>
  The digits after the sign, read from the left; \<open>after_digit\<close> says that the character
  before was a digit, which is where an underscore or the end may come.
\<close>

fun parse_digits :: "nat \<Rightarrow> bool \<Rightarrow> string \<Rightarrow> nat option" where
  "parse_digits acc after_digit [] = (if after_digit then Some acc else None)"
| "parse_digits acc after_digit (c # cs) =
     (if c = CHR ''_'' then (if after_digit \<and> cs \<noteq> [] then parse_digits acc False cs else None)
      else (case digit_value c of
              None \<Rightarrow> None
            | Some v \<Rightarrow> parse_digits (10 * acc + v) True cs))"

definition py_int :: "string \<Rightarrow> int option" where
  "py_int s =
     (case strip s of
        [] \<Rightarrow> None
      | c # cs \<Rightarrow>
          (if c = CHR ''-'' then map_option (\<lambda>n. - int n) (parse_digits 0 False cs)
           else if c = CHR ''+'' then map_option int (parse_digits 0 False cs)
           else map_option int (parse_digits 0 False (c # cs))))"

text \<open>\<^verbatim>\<open>reverse(name, args=...)\<close>: the address of a named route, kept symbolic.\<close>

datatype url = reverse string "int list"

record render_context =
  context_question :: Question
  error_message :: string

datatype response =
    render string render_context
  | HttpResponseRedirect url

text \<open>
  The value assigned to \<^verbatim>\<open>selected_choice.votes\<close> is not a number but an expression over
  the stored column, \<^verbatim>\<open>F('votes') + 1\<close>; the store evaluates it on the row it updates.
\<close>

datatype votes_expr = F_votes | Literal int | Add votes_expr votes_expr

fun eval_expr :: "Choice \<Rightarrow> votes_expr \<Rightarrow> int" where
  "eval_expr row F_votes = votes row"
| "eval_expr row (Literal n) = n"
| "eval_expr row (Add a b) = eval_expr row a + eval_expr row b"

text \<open>
  \<^verbatim>\<open>save()\<close> of a loaded instance whose \<^verbatim>\<open>votes\<close> is an expression: one UPDATE of the rows
  with the instance's primary key, writing the instance's other fields as they are in memory
  and the value of the expression on the stored row. When no row has that key the
  framework falls back to an INSERT, which rejects the expression with \<^verbatim>\<open>ValueError\<close>.
\<close>

definition save :: "Choice \<Rightarrow> votes_expr \<Rightarrow> db \<Rightarrow> error + db" where
  "save obj e d =
     (if c_pk obj \<in> set (map c_pk (choices d))
      then Inr (d\<lparr> choices :=
                  map (\<lambda>row. if c_pk row = c_pk obj then obj\<lparr> votes := eval_expr row e \<rparr> else row)
                    (choices d) \<rparr>)
      else Inl ValueError)"

text \<open>\<^verbatim>\<open>refresh_from_db()\<close>: reads the instance's row again, by primary key.\<close>

definition refresh_from_db :: "db \<Rightarrow> Choice \<Rightarrow> error + Choice" where
  "refresh_from_db d obj = get_by_pk c_pk (choices d) (c_pk obj)"

text \<open>
  The body of the \<^verbatim>\<open>try\<close>: \<^verbatim>\<open>request.POST['choice']\<close> raises \<^verbatim>\<open>KeyError\<close> when the field is
  absent; \<^verbatim>\<open>question.choice_set.get(pk=...)\<close> raises \<^verbatim>\<open>ValueError\<close> when the submitted
  string is not the text of an integer, and otherwise raises as \<open>get_by_pk\<close> does.
\<close>

definition select_choice ::
  "(string \<Rightarrow> int option) \<Rightarrow> request \<Rightarrow> db \<Rightarrow> Question \<Rightarrow> error + Choice" where
  "select_choice to_int req d q =
     (case POST req ''choice'' of
        None \<Rightarrow> Inl KeyError
      | Some s \<Rightarrow>
          (case to_int s of
             None \<Rightarrow> Inl ValueError
           | Some k \<Rightarrow> get_by_pk c_pk (choice_set d q) k))"

text \<open>
  The view talks to the store twice: first the queries that find the Question and the
  selected Choice, then the UPDATE that \<^verbatim>\<open>save()\<close> issues. What it holds in between is either
  its answer already (a response, or the exception that leaves it) or the selected instance
  with the expression assigned to its \<^verbatim>\<open>votes\<close>.
\<close>

datatype pending =
    Responded "error + response"
  | Assigned Choice votes_expr

text \<open>
  The first part of \<^verbatim>\<open>vote\<close>, up to the assignment
  \<^verbatim>\<open>selected_choice.votes = F('votes') + 1\<close>. Of the exceptions of the \<^verbatim>\<open>try\<close>, the handler
  takes \<^verbatim>\<open>KeyError\<close> and \<^verbatim>\<open>Choice.DoesNotExist\<close>; any other leaves the view.
\<close>

definition vote_select ::
  "(string \<Rightarrow> int option) \<Rightarrow> request \<Rightarrow> int \<Rightarrow> db \<Rightarrow> pending" where
  "vote_select to_int req qid d =
     (case get_object_or_404 (questions d) qid of
        Inl e \<Rightarrow> Responded (Inl e)
      | Inr q \<Rightarrow>
          (case select_choice to_int req d q of
             Inl e \<Rightarrow>
               (if e = KeyError \<or> e = DoesNotExist
                then Responded (Inr (render ''polls/detail.html''
                        \<lparr> context_question = q,
                          error_message = ''You didn't select a choice.'' \<rparr>))
                else Responded (Inl e))
           | Inr selected_choice \<Rightarrow> Assigned selected_choice (Add F_votes (Literal 1))))"

text \<open>
  The second part: \<^verbatim>\<open>save()\<close>, \<^verbatim>\<open>refresh_from_db()\<close> and the redirect, on the database as it
  is when the UPDATE arrives.
\<close>

definition vote_save ::
  "int \<Rightarrow> Choice \<Rightarrow> votes_expr \<Rightarrow> db \<Rightarrow> (error + response) \<times> db" where
  "vote_save qid selected_choice e d =
     (case save selected_choice e d of
        Inl err \<Rightarrow> (Inl err, d)
      | Inr d' \<Rightarrow>
          (case refresh_from_db d' selected_choice of
             Inl err \<Rightarrow> (Inl err, d')
           | Inr refreshed \<Rightarrow>
               (Inr (HttpResponseRedirect (reverse ''polls:results'' [qid])), d')))"

text \<open>
  \<^verbatim>\<open>vote(request, question_id)\<close> with no other request in between: the response or the
  exception that leaves the view, and the database state afterwards.
\<close>

definition vote ::
  "(string \<Rightarrow> int option) \<Rightarrow> request \<Rightarrow> int \<Rightarrow> db \<Rightarrow> (error + response) \<times> db" where
  "vote to_int req qid d =
     (case vote_select to_int req qid d of
        Responded r \<Rightarrow> (r, d)
      | Assigned selected_choice e \<Rightarrow> vote_save qid selected_choice e d)"

section \<open>A database for the scenarios\<close>

text \<open>
  The clock reads 200. \<open>Q1\<close> was published at 100 and has the choices Yes (3 votes) and No
  (1 vote); \<open>Q_future\<close> is to be published at 300; \<open>Q_empty\<close> is published and has no
  choices; \<open>Q_fresh\<close> is published and nobody has voted on its two choices.
\<close>

definition Q1 :: Question where
  "Q1 = \<lparr> q_pk = 1, question_text = ''Q1'', pub_date = 100 \<rparr>"

definition Q_future :: Question where
  "Q_future = \<lparr> q_pk = 2, question_text = ''Q2'', pub_date = 300 \<rparr>"

definition Q_empty :: Question where
  "Q_empty = \<lparr> q_pk = 3, question_text = ''Q3'', pub_date = 50 \<rparr>"

definition Q_fresh :: Question where
  "Q_fresh = \<lparr> q_pk = 4, question_text = ''Q4'', pub_date = 150 \<rparr>"

definition scenario_db :: db where
  "scenario_db =
     \<lparr> questions = [Q1, Q_future, Q_empty, Q_fresh],
       choices =
         [\<lparr> c_pk = 1, question_id = 1, choice_text = ''Yes'', votes = 3 \<rparr>,
          \<lparr> c_pk = 2, question_id = 1, choice_text = ''No'', votes = 1 \<rparr>,
          \<lparr> c_pk = 3, question_id = 2, choice_text = ''Later'', votes = 5 \<rparr>,
          \<lparr> c_pk = 4, question_id = 4, choice_text = ''Yes'', votes = 0 \<rparr>,
          \<lparr> c_pk = 5, question_id = 4, choice_text = ''No'', votes = 0 \<rparr>] \<rparr>"

lemmas scenario_defs = scenario_db_def Q1_def Q_future_def Q_empty_def Q_fresh_def

lemmas vote_eval_defs = vote_def vote_select_def vote_save_def get_object_or_404_def
  get_by_pk_def select_choice_def choice_set_def save_def refresh_from_db_def

section \<open>Facts about the queries\<close>

lemma py_or_0: "py_or (Sum_votes cs) 0 = sum_list (map votes cs)"
  by (simp add: py_or_def Sum_votes_def)

lemma Coalesce_0: "Coalesce (Sum_votes cs) 0 = sum_list (map votes cs)"
  by (simp add: Coalesce_def Sum_votes_def)

lemma get_object_or_404_errors:
  "get_object_or_404 qs k = Inl e \<Longrightarrow> e = Http404 \<or> e = MultipleObjectsReturned"
  by (auto simp: get_object_or_404_def get_by_pk_def split: list.splits sum.splits if_splits)

section \<open>The Results view never fails once it has its Question\<close>

lemma attach_percentages_eq:
  "attach_percentages rnd tot cs =
     Inr (map (\<lambda>c. \<lparr> choice = c,
                      percentage =
                        (if tot > 0
                         then PyFloat (rnd (rnd (real_of_int (votes c) / real_of_int tot) * 100))
                         else PyInt 0) \<rparr>) cs)"
  by (induction cs) (simp_all add: choice_percentage_def py_truediv_def py_mul_def)

lemma max_from_mem: "max_from key b xs \<in> set (b # xs)"
  by (induction xs arbitrary: b) auto

lemma max_from_ge_best: "key b \<le> key (max_from key b xs)"
proof (induction xs arbitrary: b)
  case Nil
  show ?case by simp
next
  case (Cons x xs)
  show ?case
    using Cons.IH [of "if key x > key b then x else b"] by (simp split: if_splits)
qed

lemma max_from_ge: "y \<in> set (b # xs) \<Longrightarrow> key y \<le> key (max_from key b xs)"
proof (induction xs arbitrary: b)
  case Nil
  then show ?case by simp
next
  case (Cons x xs)
  let ?b = "if key x > key b then x else b"
  have *: "key b \<le> key (max_from key ?b xs)" "key x \<le> key (max_from key ?b xs)"
    using max_from_ge_best [of key ?b xs] by (auto split: if_splits)
  from Cons.prems consider "y = b" | "y = x" | "y \<in> set xs" by auto
  then show ?case
  proof cases
    case 3
    then show ?thesis using Cons.IH [of ?b] by simp
  qed (use * in simp_all)
qed

lemma ResultsView_get_context_data_eq:
  "ResultsView_get_context_data rnd d q =
     Inr \<lparr> results_question = q,
           results_total_votes = sum_list (map votes (choice_set d q)),
           most_popular_choice =
             (case attach_percentages rnd (sum_list (map votes (choice_set d q))) (choice_set d q) of
                Inr (x # rest) \<Rightarrow>
                  (if sum_list (map votes (choice_set d q)) > 0
                   then Some (max_from (\<lambda>c. votes (choice c)) x rest) else None)
              | _ \<Rightarrow> None),
           context_choices =
             map (\<lambda>c. \<lparr> choice = c,
                      percentage =
                        (if sum_list (map votes (choice_set d q)) > 0
                         then PyFloat (rnd (rnd (real_of_int (votes c) /
                                 real_of_int (sum_list (map votes (choice_set d q)))) * 100))
                         else PyInt 0) \<rparr>) (choice_set d q) \<rparr>"
  by (cases "choice_set d q")
     (simp_all add: ResultsView_get_context_data_def Let_def py_or_0 attach_percentages_eq
        py_max_def)

section \<open>Percentages\<close>

text \<open>
  C1. For every database state and every Question handed to the Results view, the view
  returns a context (it raises nothing); the total it attaches is the sum of the vote
  counters of the Question's Choices; the choices of the context are the Question's Choices,
  each with a percentage; when the total is positive the percentage is the float
  \<^verbatim>\<open>(votes / total_votes) * 100\<close>, that is the rounded product by 100 of the rounded quotient,
  and when the total is 0 it is the integer 0. Whatever the identifier asked for, the view
  does not end in \<^verbatim>\<open>ZeroDivisionError\<close>.
\<close>

theorem percentage_correct:
  "\<exists>r. ResultsView_get_context_data rnd d q = Inr r \<and>
       results_total_votes r = sum_list (map votes (choice_set d q)) \<and>
       map choice (context_choices r) = choice_set d q \<and>
       (\<forall>cp \<in> set (context_choices r).
          (results_total_votes r > 0 \<longrightarrow>
             percentage cp =
               PyFloat (py_mul rnd (rnd (real_of_int (votes (choice cp)) /
                                         real_of_int (results_total_votes r))) 100)) \<and>
          (results_total_votes r = 0 \<longrightarrow> percentage cp = PyInt 0)) \<and>
       ResultsView rnd d now k \<noteq> Inl ZeroDivisionError"
proof -
  have "ResultsView rnd d now k \<noteq> Inl ZeroDivisionError"
    by (auto simp: ResultsView_def ResultsView_get_context_data_eq split: sum.splits
        dest: get_object_or_404_errors)
  then show ?thesis
    by (simp add: ResultsView_get_context_data_eq py_mul_def comp_def)
qed

text \<open>
  At the scenario database: Yes = 3 and No = 1 give 75 and 25 (with exact arithmetic for the
  floats), and the Question nobody has voted on gives 0 and 0.
\<close>

theorem percentage_correct_witness:
  "(\<exists>r. ResultsView (\<lambda>x. x) scenario_db 200 1 = Inr r \<and>
        results_total_votes r = 4 \<and>
        map percentage (context_choices r) = [PyFloat 75, PyFloat 25]) \<and>
   (\<exists>r. ResultsView (\<lambda>x. x) scenario_db 200 4 = Inr r \<and>
        results_total_votes r = 0 \<and>
        map percentage (context_choices r) = [PyInt 0, PyInt 0])"
  using percentage_correct [of "\<lambda>x. x" scenario_db Q1 200 1]
    percentage_correct [of "\<lambda>x. x" scenario_db Q_fresh 200 4]
  by (simp add: ResultsView_def ResultsView_get_queryset_def published_def get_object_or_404_def
      get_by_pk_def ResultsView_get_context_data_eq choice_set_def scenario_defs)

section \<open>The most popular choice\<close>

text \<open>
  C4. For every database state and every Question handed to the Results view: when the total
  is positive and the Question has a Choice, the most popular choice is one of the choices of
  the context, its Choice belongs to the Question, and no Choice of the Question has a larger
  vote counter; when the total is 0 or the Question has no Choice, it is none.
\<close>

theorem most_popular_choice_correct:
  "\<exists>r. ResultsView_get_context_data rnd d q = Inr r \<and>
       (results_total_votes r > 0 \<and> choice_set d q \<noteq> [] \<longrightarrow>
          (\<exists>m. most_popular_choice r = Some m \<and> m \<in> set (context_choices r) \<and>
               choice m \<in> set (choice_set d q) \<and>
               (\<forall>c \<in> set (choice_set d q). votes c \<le> votes (choice m)))) \<and>
       (results_total_votes r = 0 \<or> choice_set d q = [] \<longrightarrow> most_popular_choice r = None)"
proof -
  define cs where "cs = choice_set d q"
  define t where "t = sum_list (map votes cs)"
  define f where "f = (\<lambda>c. \<lparr> choice = c,
                      percentage =
                        (if t > 0
                         then PyFloat (rnd (rnd (real_of_int (votes c) / real_of_int t) * 100))
                         else PyInt 0) \<rparr>)"
  define key where "key = (\<lambda>c :: Choice_with_percentage. votes (choice c))"
  define best where "best = (case cs of [] \<Rightarrow> None
                             | x # rest \<Rightarrow> if t > 0 then Some (max_from key (f x) (map f rest)) else None)"
  define r where "r = \<lparr> results_question = q, results_total_votes = t,
                        most_popular_choice = best, context_choices = map f cs \<rparr>"
  have att: "attach_percentages rnd t cs = Inr (map f cs)"
    by (simp add: attach_percentages_eq f_def)
  have run: "ResultsView_get_context_data rnd d q = Inr r"
    unfolding ResultsView_get_context_data_def Let_def py_or_0 cs_def [symmetric]
      t_def [symmetric] att r_def best_def key_def
    by (cases cs) (simp_all add: py_max_def)
  have choice_f: "choice (f c) = c" for c
    by (simp add: f_def)
  have none: "t = 0 \<or> cs = [] \<Longrightarrow> best = None"
    by (auto simp: best_def split: list.splits)
  have some: "\<exists>m. best = Some m \<and> m \<in> set (map f cs) \<and> choice m \<in> set cs \<and>
                  (\<forall>c \<in> set cs. votes c \<le> votes (choice m))"
    if "t > 0" "cs \<noteq> []"
  proof -
    from that obtain x rest where cs: "cs = x # rest"
      by (cases cs) auto
    let ?m = "max_from key (f x) (map f rest)"
    have b: "best = Some ?m"
      using that by (simp add: best_def cs)
    have mem: "?m \<in> set (map f cs)"
      using max_from_mem [of key "f x" "map f rest"] by (simp add: cs)
    then have mem': "choice ?m \<in> set cs"
      using choice_f by auto
    have "votes c \<le> votes (choice ?m)" if "c \<in> set cs" for c
    proof -
      from that have "f c \<in> set (f x # map f rest)"
        by (auto simp: cs)
      from max_from_ge [OF this, of key] show ?thesis
        by (simp add: key_def choice_f)
    qed
    with b mem mem' show ?thesis by blast
  qed
  have "(results_total_votes r > 0 \<and> cs \<noteq> [] \<longrightarrow>
          (\<exists>m. most_popular_choice r = Some m \<and> m \<in> set (context_choices r) \<and>
               choice m \<in> set cs \<and> (\<forall>c \<in> set cs. votes c \<le> votes (choice m)))) \<and>
       (results_total_votes r = 0 \<or> cs = [] \<longrightarrow> most_popular_choice r = None)"
    using none some by (simp add: r_def)
  with run show ?thesis
    unfolding cs_def by blast
qed

text \<open>
  At the scenario database: Yes (3 votes) for \<open>Q1\<close>; none for the Question without choices
  and for the Question without votes.
\<close>

theorem most_popular_choice_correct_witness:
  "(\<exists>r. ResultsView (\<lambda>x. x) scenario_db 200 1 = Inr r \<and> results_total_votes r = 4 \<and>
        most_popular_choice r =
          Some \<lparr> choice = \<lparr> c_pk = 1, question_id = 1, choice_text = ''Yes'', votes = 3 \<rparr>,
                 percentage = PyFloat 75 \<rparr>) \<and>
   (\<exists>r. ResultsView (\<lambda>x. x) scenario_db 200 3 = Inr r \<and> results_total_votes r = 0 \<and>
        context_choices r = [] \<and> most_popular_choice r = None) \<and>
   (\<exists>r. ResultsView (\<lambda>x. x) scenario_db 200 4 = Inr r \<and> results_total_votes r = 0 \<and>
        length (context_choices r) = 2 \<and> most_popular_choice r = None)"
  using most_popular_choice_correct [of "\<lambda>x. x" scenario_db Q1]
    most_popular_choice_correct [of "\<lambda>x. x" scenario_db Q_empty]
    most_popular_choice_correct [of "\<lambda>x. x" scenario_db Q_fresh]
  by (simp add: ResultsView_def ResultsView_get_queryset_def published_def get_object_or_404_def
      get_by_pk_def ResultsView_get_context_data_eq attach_percentages_eq choice_set_def
      scenario_defs)

section \<open>The aggregation rule is the same in the three views\<close>

text \<open>
  C8. For every database state and every Question, the total that the Results view computes
  (the sum with \<^verbatim>\<open>or 0\<close>) is the total that the Detail view attaches (the sum under
  \<^verbatim>\<open>Coalesce\<close>), and it is the total that the Listing view attaches to that Question
  wherever it lists it; for a Question without Choices it is 0.
\<close>

theorem total_votes_consistent:
  "\<exists>r. ResultsView_get_context_data rnd d q = Inr r \<and>
       results_total_votes r = total_votes (DetailView_get_context_data d q) \<and>
       (\<forall>l \<in> set (latest_question_list (IndexView_get_context_data d now)).
          question l = q \<longrightarrow> total_votes l = results_total_votes r) \<and>
       (choice_set d q = [] \<longrightarrow> results_total_votes r = 0)"
  by (auto simp: ResultsView_get_context_data_eq DetailView_get_context_data_def
      IndexView_get_context_data_def Coalesce_0)

text \<open>At the scenario database: 4 for \<open>Q1\<close> in the three views, 0 for the Question without choices.\<close>

theorem total_votes_consistent_witness:
  "(\<exists>r. ResultsView_get_context_data (\<lambda>x. x) scenario_db Q1 = Inr r \<and>
        results_total_votes r = 4 \<and>
        total_votes (DetailView_get_context_data scenario_db Q1) = 4 \<and>
        latest_question_list (IndexView_get_context_data scenario_db 200) =
          [\<lparr> question = Q_fresh, total_votes = 0 \<rparr>, \<lparr> question = Q1, total_votes = 4 \<rparr>,
           \<lparr> question = Q_empty, total_votes = 0 \<rparr>]) \<and>
   (\<exists>r. ResultsView_get_context_data (\<lambda>x. x) scenario_db Q_empty = Inr r \<and>
        choice_set scenario_db Q_empty = [] \<and> results_total_votes r = 0)"
  using total_votes_consistent [of "\<lambda>x. x" scenario_db Q1 200]
    total_votes_consistent [of "\<lambda>x. x" scenario_db Q_empty 200]
  by (simp add: ResultsView_get_context_data_eq DetailView_get_context_data_def
      IndexView_get_context_data_def IndexView_get_queryset_def order_by_pub_date_desc_def
      published_def Coalesce_0 choice_set_def scenario_defs)

section \<open>The Listing view\<close>

lemma sorted_wrt_desc_sort_key:
  "sorted_wrt (\<lambda>a b. pub_date b \<le> pub_date a) (order_by_pub_date_desc qs)"
proof -
  have "sorted (map (\<lambda>q. - pub_date q) (sort_key (\<lambda>q. - pub_date q) qs))"
    by (rule sorted_sort_key)
  then show ?thesis
    by (simp add: order_by_pub_date_desc_def sorted_map)
qed

lemma mset_order_by: "mset (order_by_pub_date_desc qs) = mset qs"
  by (simp add: order_by_pub_date_desc_def)

text \<open>
  C5. For every database state and clock reading, the Listing view's queryset consists of
  published Questions only, holds at most 10 of them, is in descending order of publication
  timestamp, and is a most recent part of the published Questions: the published Questions
  are the listed ones together with a remainder none of which is more recent than a listed
  one, and the remainder is empty unless 10 are listed. It is the list the context carries,
  and it is the empty list when no Question is published.
\<close>

theorem listing_latest_ten:
  "\<exists>rest. mset (published now (questions d)) = mset (IndexView_get_queryset d now) + mset rest \<and>
          (\<forall>p \<in> set (IndexView_get_queryset d now). \<forall>q \<in> set rest. pub_date q \<le> pub_date p) \<and>
          (length (IndexView_get_queryset d now) = 10 \<or> rest = []) \<and>
          length (IndexView_get_queryset d now) \<le> 10 \<and>
          set (published now (questions d)) = {q \<in> set (questions d). pub_date q \<le> now} \<and>
          sorted_wrt (\<lambda>a b. pub_date b \<le> pub_date a) (IndexView_get_queryset d now) \<and>
          map question (latest_question_list (IndexView_get_context_data d now)) =
            IndexView_get_queryset d now \<and>
          ((\<forall>q \<in> set (questions d). now < pub_date q) \<longrightarrow> IndexView_get_queryset d now = [])"
proof -
  define xs where "xs = order_by_pub_date_desc (published now (questions d))"
  have r: "IndexView_get_queryset d now = take 10 xs"
    by (simp add: IndexView_get_queryset_def xs_def)
  have s: "sorted_wrt (\<lambda>a b. pub_date b \<le> pub_date a) (take 10 xs @ drop 10 xs)"
    using sorted_wrt_desc_sort_key [of "published now (questions d)"] by (simp add: xs_def)
  have m: "mset (published now (questions d)) = mset (take 10 xs) + mset (drop 10 xs)"
    using mset_order_by [of "published now (questions d)"]
    by (metis append_take_drop_id mset_append xs_def)
  have cross: "\<forall>p \<in> set (take 10 xs). \<forall>q \<in> set (drop 10 xs). pub_date q \<le> pub_date p"
    using s unfolding sorted_wrt_append by blast
  have srt: "sorted_wrt (\<lambda>a b. pub_date b \<le> pub_date a) (take 10 xs)"
    using s unfolding sorted_wrt_append by blast
  have len: "length (take 10 xs) = 10 \<or> drop 10 xs = []"
    by (cases "10 \<le> length xs") auto
  have empty: "(\<forall>q \<in> set (questions d). now < pub_date q) \<longrightarrow> take 10 xs = []"
  proof
    assume "\<forall>q \<in> set (questions d). now < pub_date q"
    then have "published now (questions d) = []"
      by (auto simp: published_def filter_empty_conv)
    then show "take 10 xs = []"
      by (simp add: xs_def order_by_pub_date_desc_def)
  qed
  have ctx: "map question (latest_question_list (IndexView_get_context_data d now)) = take 10 xs"
    by (simp add: IndexView_get_context_data_def r comp_def)
  have st: "set (published now (questions d)) = {q \<in> set (questions d). pub_date q \<le> now}"
    by (auto simp: published_def)
  show ?thesis
    unfolding r ctx using m cross srt len empty st by (intro exI [of _ "drop 10 xs"]) simp
qed

text \<open>
  At the scenario database: at 200 the three published Questions, most recent first; at 40
  nothing is published and the list is empty.
\<close>

theorem listing_latest_ten_witness:
  "IndexView_get_queryset scenario_db 200 = [Q_fresh, Q1, Q_empty] \<and>
   published 200 (questions scenario_db) = [Q1, Q_empty, Q_fresh] \<and>
   IndexView_get_queryset scenario_db 40 = []"
  using listing_latest_ten [of 200 scenario_db] listing_latest_ten [of 40 scenario_db]
  by (simp add: IndexView_get_queryset_def order_by_pub_date_desc_def published_def scenario_defs)

text \<open>
  C9. For every database state and clock reading, the Listing view's context has
  \<^verbatim>\<open>total_polls\<close> equal to the number of all Questions, those to be published later
  included; its system-wide \<^verbatim>\<open>total_votes\<close> is the sum of the vote counters of all Choices, 0
  when there is no Choice; and each listed Question carries the sum of the counters of its
  own Choices, 0 when it has none.
\<close>

theorem listing_statistics:
  "total_polls (IndexView_get_context_data d now) = length (questions d) \<and>
   total_polls (IndexView_get_context_data d now) =
     length (published now (questions d)) + length (filter (\<lambda>q. now < pub_date q) (questions d)) \<and>
   all_votes (IndexView_get_context_data d now) = sum_list (map votes (choices d)) \<and>
   (choices d = [] \<longrightarrow> all_votes (IndexView_get_context_data d now) = 0) \<and>
   map question (latest_question_list (IndexView_get_context_data d now)) =
     IndexView_get_queryset d now \<and>
   (\<forall>l \<in> set (latest_question_list (IndexView_get_context_data d now)).
      total_votes l = sum_list (map votes (choice_set d (question l))) \<and>
      (choice_set d (question l) = [] \<longrightarrow> total_votes l = 0))"
proof -
  have "length (questions d) =
          length (published now (questions d)) + length (filter (\<lambda>q. now < pub_date q) (questions d))"
    using sum_length_filter_compl [of "\<lambda>q. pub_date q \<le> now" "questions d"]
    by (simp add: published_def not_le)
  then show ?thesis
    by (auto simp: IndexView_get_context_data_def Coalesce_0 comp_def)
qed

text \<open>
  At the scenario database: 4 polls of which 3 are published, 9 votes in all, and 0, 4 and 0
  votes for the three listed Questions; a database without Choices has 0 votes in all.
\<close>

theorem listing_statistics_witness:
  "total_polls (IndexView_get_context_data scenario_db 200) = 4 \<and>
   length (published 200 (questions scenario_db)) = 3 \<and>
   all_votes (IndexView_get_context_data scenario_db 200) = 9 \<and>
   all_votes (IndexView_get_context_data \<lparr> questions = [Q_empty], choices = [] \<rparr> 200) = 0 \<and>
   latest_question_list (IndexView_get_context_data scenario_db 200) =
     [\<lparr> question = Q_fresh, total_votes = 0 \<rparr>, \<lparr> question = Q1, total_votes = 4 \<rparr>,
      \<lparr> question = Q_empty, total_votes = 0 \<rparr>] \<and>
   choice_set scenario_db Q_empty = []"
  using listing_statistics [of scenario_db 200]
    listing_statistics [of "\<lparr> questions = [Q_empty], choices = [] \<rparr>" 200]
  by (simp add: IndexView_get_context_data_def IndexView_get_queryset_def
      order_by_pub_date_desc_def published_def Coalesce_0 choice_set_def scenario_defs)

section \<open>Looking a row up by its primary key\<close>

lemma filter_pk_unique:
  "distinct (map pk_of rows) \<Longrightarrow> r \<in> set rows \<Longrightarrow> filter (\<lambda>x. pk_of x = pk_of r) rows = [r]"
proof (induction rows)
  case Nil
  then show ?case by simp
next
  case (Cons a rows)
  show ?case
  proof (cases "a = r")
    case True
    with Cons.prems have "\<forall>x \<in> set rows. pk_of x \<noteq> pk_of r"
      by (auto simp: image_iff)
    then have "filter (\<lambda>x. pk_of x = pk_of r) rows = []"
      by (simp add: filter_empty_conv)
    with True show ?thesis by simp
  next
    case False
    with Cons.prems have "r \<in> set rows" "pk_of a \<noteq> pk_of r"
      by (auto simp: image_iff)
    with Cons show ?thesis by simp
  qed
qed

lemma get_by_pk_found:
  "distinct (map pk_of rows) \<Longrightarrow> r \<in> set rows \<Longrightarrow> get_by_pk pk_of rows (pk_of r) = Inr r"
  by (simp add: get_by_pk_def filter_pk_unique)

lemma get_by_pk_missing:
  "\<forall>r \<in> set rows. pk_of r \<noteq> k \<Longrightarrow> get_by_pk pk_of rows k = Inl DoesNotExist"
  by (simp add: get_by_pk_def filter_empty_conv)

lemma get_by_pk_Inr:
  "get_by_pk pk_of rows k = Inr r \<Longrightarrow> r \<in> set rows \<and> pk_of r = k"
proof -
  assume a: "get_by_pk pk_of rows k = Inr r"
  then have "filter (\<lambda>x. pk_of x = k) rows = [r]"
    by (auto simp: get_by_pk_def split: list.splits)
  then have "r \<in> set (filter (\<lambda>x. pk_of x = k) rows)" by simp
  then show ?thesis by simp
qed

lemma distinct_published:
  "distinct (map q_pk qs) \<Longrightarrow> distinct (map q_pk (published now qs))"
  by (simp add: published_def distinct_map_filter)

lemma get_object_or_404_found:
  "distinct (map q_pk qs) \<Longrightarrow> q \<in> set qs \<Longrightarrow> get_object_or_404 qs (q_pk q) = Inr q"
  by (simp add: get_object_or_404_def get_by_pk_found)

lemma get_object_or_404_missing:
  "\<forall>q \<in> set qs. q_pk q \<noteq> k \<Longrightarrow> get_object_or_404 qs k = Inl Http404"
  by (simp add: get_object_or_404_def get_by_pk_missing)

section \<open>Detail and Results: published Questions only\<close>

text \<open>
  C6. In a database whose Question identifiers are unique, for every identifier and clock
  reading: when a Question with that identifier exists and is published, the Detail view
  returns it with its total and the Results view returns a context for it with the same
  total; when there is no such Question, both views fail with \<^verbatim>\<open>Http404\<close>. For an existing
  Question that is not yet published, each view gives exactly what it gives on the database
  from which that Question has been removed.
\<close>

theorem detail_results_not_found:
  assumes "distinct (map q_pk (questions d))"
  shows "(\<forall>q. q \<in> set (questions d) \<and> q_pk q = k \<and> pub_date q \<le> now \<longrightarrow>
            DetailView d now k =
              Inr \<lparr> question = q, total_votes = sum_list (map votes (choice_set d q)) \<rparr> \<and>
            (\<exists>r. ResultsView rnd d now k = Inr r \<and> results_question r = q \<and>
                 results_total_votes r = sum_list (map votes (choice_set d q)))) \<and>
         ((\<nexists>q. q \<in> set (questions d) \<and> q_pk q = k \<and> pub_date q \<le> now) \<longrightarrow>
            DetailView d now k = Inl Http404 \<and> ResultsView rnd d now k = Inl Http404) \<and>
         (\<forall>q. q \<in> set (questions d) \<and> q_pk q = k \<and> now < pub_date q \<longrightarrow>
            DetailView d now k =
              DetailView (d\<lparr> questions := filter (\<lambda>x. q_pk x \<noteq> k) (questions d) \<rparr>) now k \<and>
            ResultsView rnd d now k =
              ResultsView rnd (d\<lparr> questions := filter (\<lambda>x. q_pk x \<noteq> k) (questions d) \<rparr>) now k)"
proof -
  have found: "DetailView d now k =
                 Inr \<lparr> question = q, total_votes = sum_list (map votes (choice_set d q)) \<rparr> \<and>
               (\<exists>r. ResultsView rnd d now k = Inr r \<and> results_question r = q \<and>
                    results_total_votes r = sum_list (map votes (choice_set d q)))"
    if "q \<in> set (questions d)" "q_pk q = k" "pub_date q \<le> now" for q
  proof -
    from that have "q \<in> set (published now (questions d))"
      by (simp add: published_def)
    with assms have "get_object_or_404 (published now (questions d)) (q_pk q) = Inr q"
      by (intro get_object_or_404_found distinct_published)
    with that show ?thesis
      by (simp add: DetailView_def DetailView_get_queryset_def DetailView_get_context_data_def
          ResultsView_def ResultsView_get_queryset_def ResultsView_get_context_data_eq Coalesce_0)
  qed
  have missing: "DetailView d' now k = Inl Http404 \<and> ResultsView rnd d' now k = Inl Http404"
    if "\<nexists>q. q \<in> set (questions d') \<and> q_pk q = k \<and> pub_date q \<le> now" for d'
  proof -
    from that have "\<forall>q \<in> set (published now (questions d')). q_pk q \<noteq> k"
      by (auto simp: published_def)
    then have "get_object_or_404 (published now (questions d')) k = Inl Http404"
      by (rule get_object_or_404_missing)
    then show ?thesis
      by (simp add: DetailView_def DetailView_get_queryset_def ResultsView_def
          ResultsView_get_queryset_def)
  qed
  have hidden: "DetailView d now k =
                  DetailView (d\<lparr> questions := filter (\<lambda>x. q_pk x \<noteq> k) (questions d) \<rparr>) now k \<and>
                ResultsView rnd d now k =
                  ResultsView rnd (d\<lparr> questions := filter (\<lambda>x. q_pk x \<noteq> k) (questions d) \<rparr>) now k"
    if "q \<in> set (questions d)" "q_pk q = k" "now < pub_date q" for q
  proof -
    have "pub_date x \<le> now \<Longrightarrow> x \<in> set (questions d) \<Longrightarrow> q_pk x \<noteq> k" for x
    proof
      assume x: "pub_date x \<le> now" "x \<in> set (questions d)" "q_pk x = k"
      with that assms have "x = q"
        by (metis distinct_map inj_onD)
      with x that show False by simp
    qed
    then have "\<nexists>x. x \<in> set (questions d) \<and> q_pk x = k \<and> pub_date x \<le> now"
      by blast
    from missing [OF this]
      missing [of "d\<lparr> questions := filter (\<lambda>x. q_pk x \<noteq> k) (questions d) \<rparr>"]
    show ?thesis by simp
  qed
  from found missing [of d] hidden show ?thesis
    by blast
qed

text \<open>
  At the scenario database at 200: identifier 1 is found with total 4; identifier 2 (to be
  published at 300) and identifier 7 (no such Question) both give \<^verbatim>\<open>Http404\<close>.
\<close>

theorem detail_results_not_found_witness:
  "DetailView scenario_db 200 1 = Inr \<lparr> question = Q1, total_votes = 4 \<rparr> \<and>
   (\<exists>r. ResultsView (\<lambda>x. x) scenario_db 200 1 = Inr r \<and> results_question r = Q1 \<and>
        results_total_votes r = 4) \<and>
   DetailView scenario_db 200 2 = Inl Http404 \<and>
   ResultsView (\<lambda>x. x) scenario_db 200 2 = Inl Http404 \<and>
   DetailView scenario_db 200 7 = Inl Http404 \<and>
   ResultsView (\<lambda>x. x) scenario_db 200 7 = Inl Http404 \<and>
   Q_future \<in> set (questions scenario_db) \<and> 200 < pub_date Q_future \<and>
   distinct (map q_pk (questions scenario_db))"
proof -
  have d: "distinct (map q_pk (questions scenario_db))"
    by (simp add: scenario_defs)
  show ?thesis
    using detail_results_not_found [OF d, of 1 200 "\<lambda>x. x"]
      detail_results_not_found [OF d, of 2 200 "\<lambda>x. x"]
      detail_results_not_found [OF d, of 7 200 "\<lambda>x. x"]
    by (simp add: DetailView_def DetailView_get_queryset_def DetailView_get_context_data_def
        ResultsView_def ResultsView_get_queryset_def ResultsView_get_context_data_eq
        get_object_or_404_def get_by_pk_def published_def Coalesce_0 choice_set_def scenario_defs)
qed

section \<open>Reading the submitted identifier\<close>

lemma py_int_examples:
  "py_int ''1'' = Some 1" "py_int ''2'' = Some 2" "py_int ''3'' = Some 3" "py_int ''4'' = Some 4"
  "py_int ''99'' = Some 99" "py_int ''abc'' = None" "py_int [] = None"
  by (simp_all add: py_int_def strip_def is_space_def digit_value_def)

section \<open>The steps of a vote\<close>

lemma get_by_pk_errors:
  "get_by_pk pk_of rows k = Inl e \<Longrightarrow> e = DoesNotExist \<or> e = MultipleObjectsReturned"
  by (auto simp: get_by_pk_def split: list.splits)

lemma get_object_or_404_Inr:
  "get_object_or_404 qs k = Inr q \<Longrightarrow> q \<in> set qs \<and> q_pk q = k"
  by (auto simp: get_object_or_404_def split: sum.splits if_splits dest: get_by_pk_Inr)

lemma get_object_or_404_Http404:
  "get_object_or_404 qs k = Inl Http404 \<Longrightarrow> k \<notin> q_pk ` set qs"
  by (auto simp: get_object_or_404_def get_by_pk_def filter_empty_conv
      split: sum.splits list.splits if_splits)

lemma select_choice_Inr:
  "select_choice to_int req d q = Inr c \<Longrightarrow>
     (\<exists>s. POST req ''choice'' = Some s \<and> to_int s = Some (c_pk c)) \<and>
     c \<in> set (choices d) \<and> question_id c = q_pk q"
  by (auto simp: select_choice_def choice_set_def split: option.splits dest: get_by_pk_Inr)

lemma select_choice_errors:
  "select_choice to_int req d q = Inl e \<Longrightarrow>
     e = KeyError \<or> e = ValueError \<or> e = DoesNotExist \<or> e = MultipleObjectsReturned"
  by (auto simp: select_choice_def split: option.splits dest: get_by_pk_errors)

lemma select_choice_found:
  assumes "distinct (map c_pk (choices d))" "POST req ''choice'' = Some s"
    "to_int s = Some (c_pk c)" "c \<in> set (choices d)" "question_id c = q_pk q"
  shows "select_choice to_int req d q = Inr c"
proof -
  from assms have "distinct (map c_pk (choice_set d q))" "c \<in> set (choice_set d q)"
    by (simp_all add: choice_set_def distinct_map_filter)
  then have "get_by_pk c_pk (choice_set d q) (c_pk c) = Inr c"
    by (rule get_by_pk_found)
  with assms show ?thesis
    by (simp add: select_choice_def)
qed

lemma select_choice_missing:
  assumes "POST req ''choice'' = None \<or>
           (\<exists>s cid. POST req ''choice'' = Some s \<and> to_int s = Some cid \<and>
                  (\<forall>c \<in> set (choices d). c_pk c = cid \<longrightarrow> question_id c \<noteq> q_pk q))"
  shows "select_choice to_int req d q = Inl KeyError \<or>
         select_choice to_int req d q = Inl DoesNotExist"
proof (cases "POST req ''choice''")
  case None
  then show ?thesis by (simp add: select_choice_def)
next
  case (Some s)
  with assms obtain cid where cid: "to_int s = Some cid"
      "\<forall>c \<in> set (choices d). c_pk c = cid \<longrightarrow> question_id c \<noteq> q_pk q"
    by auto
  then have "\<forall>c \<in> set (choice_set d q). c_pk c \<noteq> cid"
    by (auto simp: choice_set_def)
  then have "get_by_pk c_pk (choice_set d q) cid = Inl DoesNotExist"
    by (rule get_by_pk_missing)
  with Some cid show ?thesis by (simp add: select_choice_def)
qed

lemma select_choice_not_a_number:
  "POST req ''choice'' = Some s \<Longrightarrow> to_int s = None \<Longrightarrow>
     select_choice to_int req d q = Inl ValueError"
  by (simp add: select_choice_def)

lemma map_c_pk_update:
  "map c_pk (map (\<lambda>row. if c_pk row = c_pk obj then obj\<lparr> votes := g row \<rparr> else row) rows) =
     map c_pk rows"
  by (induction rows) auto

lemma get_by_pk_after_update:
  assumes "distinct (map c_pk rows)" "row \<in> set rows" "c_pk row = c_pk obj"
  shows "get_by_pk c_pk
           (map (\<lambda>row. if c_pk row = c_pk obj then obj\<lparr> votes := g row \<rparr> else row) rows)
           (c_pk obj) = Inr (obj\<lparr> votes := g row \<rparr>)"
proof -
  let ?u = "\<lambda>row. if c_pk row = c_pk obj then obj\<lparr> votes := g row \<rparr> else row"
  have "distinct (map c_pk (map ?u rows))"
    unfolding map_c_pk_update by (rule assms(1))
  moreover have "?u row \<in> set (map ?u rows)"
    using assms(2) by (simp only: set_map image_eqI)
  ultimately have "get_by_pk c_pk (map ?u rows) (c_pk (?u row)) = Inr (?u row)"
    by (rule get_by_pk_found)
  with assms(3) show ?thesis by simp
qed

lemma vote_save_stored:
  assumes "distinct (map c_pk (choices s))" "row \<in> set (choices s)" "c_pk row = c_pk obj"
  shows "vote_save qid obj e s =
           (Inr (HttpResponseRedirect (reverse ''polls:results'' [qid])),
            s\<lparr> choices :=
                 map (\<lambda>row. if c_pk row = c_pk obj then obj\<lparr> votes := eval_expr row e \<rparr> else row)
                   (choices s) \<rparr>)"
    and "get_by_pk c_pk
           (map (\<lambda>row. if c_pk row = c_pk obj then obj\<lparr> votes := eval_expr row e \<rparr> else row)
              (choices s))
           (c_pk obj) = Inr (obj\<lparr> votes := eval_expr row e \<rparr>)"
proof -
  show l: "get_by_pk c_pk
           (map (\<lambda>row. if c_pk row = c_pk obj then obj\<lparr> votes := eval_expr row e \<rparr> else row)
              (choices s))
           (c_pk obj) = Inr (obj\<lparr> votes := eval_expr row e \<rparr>)"
    using assms by (rule get_by_pk_after_update)
  from assms(2) have "c_pk row \<in> c_pk ` set (choices s)"
    by (rule imageI)
  with assms(3) have "c_pk obj \<in> set (map c_pk (choices s))"
    by simp
  then show "vote_save qid obj e s =
           (Inr (HttpResponseRedirect (reverse ''polls:results'' [qid])),
            s\<lparr> choices :=
                 map (\<lambda>row. if c_pk row = c_pk obj then obj\<lparr> votes := eval_expr row e \<rparr> else row)
                   (choices s) \<rparr>)"
    using l by (simp add: vote_save_def save_def refresh_from_db_def)
qed

lemma update_selected_row:
  assumes "distinct (map c_pk (choices d))" "c \<in> set (choices d)"
  shows "map (\<lambda>row. if c_pk row = c_pk c then c\<lparr> votes := g row \<rparr> else row) (choices d) =
         map (\<lambda>row. if row = c then row\<lparr> votes := g row \<rparr> else row) (choices d)"
proof (rule map_cong)
  fix row assume "row \<in> set (choices d)"
  with assms have "c_pk row = c_pk c \<longleftrightarrow> row = c"
    by (metis distinct_map inj_onD)
  then show "(if c_pk row = c_pk c then c\<lparr> votes := g row \<rparr> else row) =
             (if row = c then row\<lparr> votes := g row \<rparr> else row)"
    by auto
qed simp

lemma vote_select_found:
  assumes "unique_pks d" "q \<in> set (questions d)" "POST req ''choice'' = Some s"
    "to_int s = Some (c_pk c)" "c \<in> set (choices d)" "question_id c = q_pk q"
  shows "vote_select to_int req (q_pk q) d = Assigned c (Add F_votes (Literal 1))"
proof -
  from assms have dq: "distinct (map q_pk (questions d))" and dc: "distinct (map c_pk (choices d))"
    by (simp_all add: unique_pks_def)
  have 1: "get_object_or_404 (questions d) (q_pk q) = Inr q"
    using dq assms(2) by (rule get_object_or_404_found)
  have 2: "select_choice to_int req d q = Inr c"
    using dc assms(3-6) by (rule select_choice_found)
  show ?thesis
    by (simp add: vote_select_def 1 2)
qed

lemma vote_success:
  assumes "unique_pks d" "q \<in> set (questions d)" "POST req ''choice'' = Some s"
    "to_int s = Some (c_pk c)" "c \<in> set (choices d)" "question_id c = q_pk q"
  shows "vote to_int req (q_pk q) d =
           (Inr (HttpResponseRedirect (reverse ''polls:results'' [q_pk q])),
            d\<lparr> choices :=
                 map (\<lambda>row. if row = c then row\<lparr> votes := votes row + 1 \<rparr> else row) (choices d) \<rparr>)"
proof -
  from assms have dc: "distinct (map c_pk (choices d))"
    by (simp add: unique_pks_def)
  have "vote to_int req (q_pk q) d = vote_save (q_pk q) c (Add F_votes (Literal 1)) d"
    by (simp add: vote_def vote_select_found [where to_int = to_int and s = s, OF assms])
  also have "\<dots> = (Inr (HttpResponseRedirect (reverse ''polls:results'' [q_pk q])),
            d\<lparr> choices :=
                 map (\<lambda>row. if c_pk row = c_pk c
                            then c\<lparr> votes := eval_expr row (Add F_votes (Literal 1)) \<rparr> else row)
                   (choices d) \<rparr>)"
    using dc assms(5) by (rule vote_save_stored(1)) simp
  finally show ?thesis
    by (simp only: eval_expr.simps update_selected_row [OF dc assms(5)])
qed

lemma vote_error_unchanged:
  assumes "get_object_or_404 (questions d) k = Inr q" "select_choice to_int req d q = Inl e"
  shows "vote to_int req k d =
           (if e = KeyError \<or> e = DoesNotExist
            then Inr (render ''polls/detail.html''
                   \<lparr> context_question = q, error_message = ''You didn't select a choice.'' \<rparr>)
            else Inl e, d)"
  using assms by (simp add: vote_def vote_select_def)

section \<open>Voting: not found\<close>

text \<open>
  C7. For every database state and submission: when no Question has the identifier, the vote
  fails with \<^verbatim>\<open>Http404\<close> and the database is as before; when a Question has the identifier,
  the vote does not fail with \<^verbatim>\<open>Http404\<close>, whatever its publication timestamp (the vote
  reads no clock).
\<close>

theorem vote_not_found:
  "(k \<notin> q_pk ` set (questions d) \<longrightarrow> vote to_int req k d = (Inl Http404, d)) \<and>
   (k \<in> q_pk ` set (questions d) \<longrightarrow> fst (vote to_int req k d) \<noteq> Inl Http404)"
proof (intro conjI impI)
  assume "k \<notin> q_pk ` set (questions d)"
  then have "\<forall>q \<in> set (questions d). q_pk q \<noteq> k"
    by auto
  then have "get_object_or_404 (questions d) k = Inl Http404"
    by (rule get_object_or_404_missing)
  then show "vote to_int req k d = (Inl Http404, d)"
    by (simp add: vote_def vote_select_def)
next
  assume k: "k \<in> q_pk ` set (questions d)"
  show "fst (vote to_int req k d) \<noteq> Inl Http404"
  proof (cases "get_object_or_404 (questions d) k")
    case (Inl e)
    with k have "e \<noteq> Http404"
      using get_object_or_404_Http404 by blast
    with Inl show ?thesis by (simp add: vote_def vote_select_def)
  next
    case (Inr q)
    show ?thesis
    proof (cases "select_choice to_int req d q")
      case (Inl e)
      then have "e = KeyError \<or> e = ValueError \<or> e = DoesNotExist \<or> e = MultipleObjectsReturned"
        by (rule select_choice_errors)
      with Inr Inl show ?thesis
        by (auto simp: vote_error_unchanged)
    next
      case c: (Inr c)
      let ?e = "Add F_votes (Literal 1)"
      from Inr c have v: "vote to_int req k d = vote_save k c ?e d"
        by (simp add: vote_def vote_select_def)
      show ?thesis
      proof (cases "save c ?e d")
        case (Inl e)
        then have "e = ValueError"
          by (simp add: save_def split: if_splits)
        with Inl show ?thesis by (simp add: v vote_save_def)
      next
        case d': (Inr d')
        show ?thesis
        proof (cases "refresh_from_db d' c")
          case (Inl e)
          then have "e = DoesNotExist \<or> e = MultipleObjectsReturned"
            unfolding refresh_from_db_def by (rule get_by_pk_errors)
          with d' Inl show ?thesis by (auto simp: v vote_save_def)
        next
          case (Inr r)
          with d' show ?thesis
            by (simp add: v vote_save_def)
        qed
      qed
    qed
  qed
qed

text \<open>
  At the scenario database: identifier 7 gives \<^verbatim>\<open>Http404\<close>; a vote on the Question to be
  published at 300 is accepted, while the Detail view at 200 answers \<^verbatim>\<open>Http404\<close> for it.
\<close>

theorem vote_not_found_witness:
  "vote py_int \<lparr> POST = [''choice'' \<mapsto> ''1''] \<rparr> 7 scenario_db = (Inl Http404, scenario_db) \<and>
   7 \<notin> q_pk ` set (questions scenario_db) \<and>
   2 \<in> q_pk ` set (questions scenario_db) \<and>
   fst (vote py_int \<lparr> POST = [''choice'' \<mapsto> ''3''] \<rparr> 2 scenario_db) =
     Inr (HttpResponseRedirect (reverse ''polls:results'' [2])) \<and>
   DetailView scenario_db 200 2 = Inl Http404"
  using vote_not_found [of 7 scenario_db py_int "\<lparr> POST = [''choice'' \<mapsto> ''1''] \<rparr>"]
    vote_not_found [of 2 scenario_db py_int "\<lparr> POST = [''choice'' \<mapsto> ''3''] \<rparr>"]
  by (simp add: vote_eval_defs py_int_examples DetailView_def DetailView_get_queryset_def
      published_def scenario_defs)

section \<open>Voting: the increment\<close>



section \<open>Voting: no selection\<close>

text \<open>
  When the submission has no field \<^verbatim>\<open>choice\<close>, or the field is the text of an integer that
  is not the identifier of a Choice of the Question, the handler of the \<^verbatim>\<open>try\<close> renders the
  form with the message and the database is as before.
\<close>

lemma vote_missing_selection:
  assumes "distinct (map q_pk (questions d))" "q \<in> set (questions d)"
    "POST req ''choice'' = None \<or>
     (\<exists>s cid. POST req ''choice'' = Some s \<and> to_int s = Some cid \<and>
            (\<forall>c \<in> set (choices d). c_pk c = cid \<longrightarrow> question_id c \<noteq> q_pk q))"
  shows "vote to_int req (q_pk q) d =
           (Inr (render ''polls/detail.html''
              \<lparr> context_question = q, error_message = ''You didn't select a choice.'' \<rparr>), d)"
proof -
  have 1: "get_object_or_404 (questions d) (q_pk q) = Inr q"
    using assms(1,2) by (rule get_object_or_404_found)
  from select_choice_missing [OF assms(3)]
  consider "select_choice to_int req d q = Inl KeyError"
    | "select_choice to_int req d q = Inl DoesNotExist"
    by blast
  then show ?thesis
    by cases (simp_all add: vote_error_unchanged [OF 1])
qed

text \<open>
  When the field is not the text of an integer, the lookup raises \<^verbatim>\<open>ValueError\<close>, which the
  handler does not take: the exception leaves the view and no form is rendered.
\<close>

lemma vote_not_a_number:
  assumes "distinct (map q_pk (questions d))" "q \<in> set (questions d)"
    "POST req ''choice'' = Some s" "to_int s = None"
  shows "vote to_int req (q_pk q) d = (Inl ValueError, d)"
proof -
  have 1: "get_object_or_404 (questions d) (q_pk q) = Inr q"
    using assms(1,2) by (rule get_object_or_404_found)
  have 2: "select_choice to_int req d q = Inl ValueError"
    using assms(3,4) by (rule select_choice_not_a_number)
  show ?thesis
    by (simp add: vote_error_unchanged [OF 1 2])
qed

text \<open>
  C3. The submissions \<^verbatim>\<open>choice=abc\<close> and \<^verbatim>\<open>choice=\<close> (the empty string) for the existing
  Question 1 of the scenario database carry a choice identifier that is no Choice of that
  Question; the vote does not render the form with \<^verbatim>\<open>You didn't select a choice.\<close> but ends
  in \<^verbatim>\<open>ValueError\<close>. The database is as before.
\<close>

theorem vote_choice_not_a_number:
  "vote py_int \<lparr> POST = [''choice'' \<mapsto> ''abc''] \<rparr> 1 scenario_db =
     (Inl ValueError, scenario_db) \<and>
   vote py_int \<lparr> POST = [''choice'' \<mapsto> []] \<rparr> 1 scenario_db = (Inl ValueError, scenario_db)"
  by (simp add: vote_eval_defs py_int_examples scenario_defs)

section \<open>Voting: what it leaves alone\<close>

text \<open>
  C10. In a database with unique identifiers, for every submission and Question identifier:
  the vote leaves the Question table as it is; and either it answers with the redirect, the
  submitted field is the text of the identifier of a Choice \<open>c\<close> of the Question, and the
  Choice table afterwards is the table before with the counter of \<open>c\<close> one higher and every
  other row, and every other field of \<open>c\<close>, as before; or it does not answer with a
  redirect and the whole database is as before.
\<close>

theorem vote_frame:
  assumes "unique_pks d"
  shows "questions (snd (vote to_int req k d)) = questions d \<and>
         ((\<exists>c s. fst (vote to_int req k d) =
                   Inr (HttpResponseRedirect (reverse ''polls:results'' [k])) \<and>
               POST req ''choice'' = Some s \<and> to_int s = Some (c_pk c) \<and>
               c \<in> set (choices d) \<and> question_id c = k \<and>
               choices (snd (vote to_int req k d)) =
                 map (\<lambda>row. if row = c then row\<lparr> votes := votes row + 1 \<rparr> else row) (choices d)) \<or>
          ((\<forall>u. fst (vote to_int req k d) \<noteq> Inr (HttpResponseRedirect u)) \<and>
           snd (vote to_int req k d) = d))"
proof (cases "get_object_or_404 (questions d) k")
  case (Inl e)
  then show ?thesis by (simp add: vote_def vote_select_def)
next
  case (Inr q)
  then have q: "q \<in> set (questions d)" "q_pk q = k"
    by (auto dest: get_object_or_404_Inr)
  show ?thesis
  proof (cases "select_choice to_int req d q")
    case (Inl e)
    with Inr show ?thesis
      by (simp add: vote_error_unchanged)
  next
    case c: (Inr c)
    then obtain s where sel: "POST req ''choice'' = Some s" "to_int s = Some (c_pk c)"
        "c \<in> set (choices d)" "question_id c = q_pk q"
      by (auto dest: select_choice_Inr)
    from vote_success [where to_int = to_int and s = s, OF assms q(1) sel] q(2) sel show ?thesis
      by auto
  qed
qed

text \<open>
  At the scenario database: a vote for No on \<open>Q1\<close> changes that one counter; a vote with
  the identifier of another Question's Choice, a vote whose field is not a number, and a
  vote on a Question that does not exist, change nothing.
\<close>

theorem vote_frame_witness:
  "unique_pks scenario_db \<and>
   snd (vote py_int \<lparr> POST = [''choice'' \<mapsto> ''2''] \<rparr> 1 scenario_db) =
     scenario_db\<lparr> choices :=
        [\<lparr> c_pk = 1, question_id = 1, choice_text = ''Yes'', votes = 3 \<rparr>,
         \<lparr> c_pk = 2, question_id = 1, choice_text = ''No'', votes = 2 \<rparr>,
         \<lparr> c_pk = 3, question_id = 2, choice_text = ''Later'', votes = 5 \<rparr>,
         \<lparr> c_pk = 4, question_id = 4, choice_text = ''Yes'', votes = 0 \<rparr>,
         \<lparr> c_pk = 5, question_id = 4, choice_text = ''No'', votes = 0 \<rparr>] \<rparr> \<and>
   snd (vote py_int \<lparr> POST = [''choice'' \<mapsto> ''4''] \<rparr> 1 scenario_db) = scenario_db \<and>
   snd (vote py_int \<lparr> POST = [''choice'' \<mapsto> ''abc''] \<rparr> 1 scenario_db) = scenario_db \<and>
   snd (vote py_int \<lparr> POST = [''choice'' \<mapsto> ''4''] \<rparr> 9 scenario_db) = scenario_db"
proof -
  have u: "unique_pks scenario_db"
    by (simp add: unique_pks_def scenario_defs)
  from vote_frame [OF u, of py_int "\<lparr> POST = [''choice'' \<mapsto> ''2''] \<rparr>" 1]
    vote_frame [OF u, of py_int "\<lparr> POST = [''choice'' \<mapsto> ''4''] \<rparr>" 1]
    vote_frame [OF u, of py_int "\<lparr> POST = [''choice'' \<mapsto> ''abc''] \<rparr>" 1]
    vote_frame [OF u, of py_int "\<lparr> POST = [''choice'' \<mapsto> ''4''] \<rparr>" 9] u
  show ?thesis
    by (simp add: vote_eval_defs py_int_examples scenario_defs)
qed

end
